theory Spec2Isabelle
  imports Complex_Main
begin

section \<open>Exceptions and Python numerics\<close>

text \<open>
  The exceptions that can leave a method of \<open>SelectiveMagnoViT\<close>. \<open>ValueError\<close> is the only
  one the file raises by a \<open>raise\<close> statement; \<open>ZeroDivisionError\<close> comes from Python's
  \<open>%\<close>, \<open>RuntimeError\<close> and \<open>IndexError\<close> from torch tensor operations and tuple
  indexing. \<open>AssertionError\<close> and \<open>ShapeMismatchError\<close> are raised by no statement of the
  file: they can only come out of a module the model calls.
\<close>

datatype exn =
  ValueError | ZeroDivisionError | RuntimeError | IndexError | AssertionError | ShapeMismatchError

text \<open>Sequencing of statements that may raise: the first exception ends the method.\<close>

definition then_do :: "exn + 'a \<Rightarrow> ('a \<Rightarrow> exn + 'b) \<Rightarrow> exn + 'b" where
  "then_do r f = (case r of Inl e \<Rightarrow> Inl e | Inr x \<Rightarrow> f x)"

text \<open>Python's \<open>a % b\<close> on ints: the sign follows the divisor, zero divisor raises.\<close>

definition py_mod :: "int \<Rightarrow> int \<Rightarrow> exn + int" where
  "py_mod a b = (if b = 0 then Inl ZeroDivisionError else Inr (a mod b))"

text \<open>
  Floats are modelled by the reals they denote (no rounding error, no NaN).
  \<open>int(x)\<close> truncates toward zero; \<open>round(x)\<close> rounds to the nearest integer, a tie
  going to the even neighbour.
\<close>

definition py_int :: "real \<Rightarrow> int" where
  "py_int x = (if 0 \<le> x then \<lfloor>x\<rfloor> else \<lceil>x\<rceil>)"

definition py_round :: "real \<Rightarrow> int" where
  "py_round x =
     (let f = \<lfloor>x\<rfloor>; r = x - of_int f
      in if r < 1 / 2 then f else if 1 / 2 < r then f + 1 else if even f then f else f + 1)"

text \<open>\<open>int(n ** 0.5)\<close> for a non-negative int \<open>n\<close>: the greatest \<open>s\<close> with \<open>s * s \<le> n\<close>.\<close>

definition isqrt :: "nat \<Rightarrow> nat" where
  "isqrt n = last (filter (\<lambda>s. s * s \<le> n) [0..<Suc n])"

section \<open>Tensors\<close>

text \<open>
  A contiguous tensor: its shape and its entries in row-major order. It is well formed
  when the number of entries is the product of the shape.
\<close>

record 'a tensor =
  shape :: "nat list"
  data :: "'a list"

definition numel :: "'a tensor \<Rightarrow> nat" where
  "numel t = prod_list (shape t)"

definition wf_tensor :: "'a tensor \<Rightarrow> bool" where
  "wf_tensor t = (length (data t) = prod_list (shape t))"

text \<open>The multi-indices of a shape in row-major order, and the flat offset of one.\<close>

fun indices :: "nat list \<Rightarrow> nat list list" where
  "indices [] = [[]]"
| "indices (d # ds) = concat (map (\<lambda>i. map ((#) i) (indices ds)) [0..<d])"

fun offset :: "nat list \<Rightarrow> nat list \<Rightarrow> nat" where
  "offset (d # ds) (i # js) = i * prod_list ds + offset ds js"
| "offset _ _ = 0"

definition entry :: "'a tensor \<Rightarrow> nat list \<Rightarrow> 'a" where
  "entry t idx = data t ! offset (shape t) idx"

definition tabulate :: "nat list \<Rightarrow> (nat list \<Rightarrow> 'a) \<Rightarrow> 'a tensor" where
  "tabulate sh f = \<lparr>shape = sh, data = map f (indices sh)\<rparr>"

definition zeros :: "nat list \<Rightarrow> real tensor" where
  "zeros sh = \<lparr>shape = sh, data = replicate (prod_list sh) 0\<rparr>"

text \<open>
  \<open>t.view(dims)\<close>: the same entries under a new shape. One dimension may be \<open>-1\<close> and is
  then inferred; torch raises RuntimeError when the sizes do not fit, and when the
  inferred dimension is ambiguous because the others multiply to zero.
\<close>

definition view :: "'a tensor \<Rightarrow> int list \<Rightarrow> exn + 'a tensor" where
  "view t dims =
     (let p = prod_list (filter (\<lambda>d. d \<noteq> - 1) dims); n = int (numel t)
      in if list_ex (\<lambda>d. d < - 1) dims \<or> 1 < length (filter (\<lambda>d. d = - 1) dims)
         then Inl RuntimeError
         else if list_ex (\<lambda>d. d = - 1) dims
         then (if p = 0 \<or> n mod p \<noteq> 0 then Inl RuntimeError
               else Inr \<lparr>shape = map (\<lambda>d. nat (if d = - 1 then n div p else d)) dims,
                         data = data t\<rparr>)
         else if p \<noteq> n then Inl RuntimeError
         else Inr \<lparr>shape = map nat dims, data = data t\<rparr>)"

text \<open>
  \<open>torch.topk(t, k, dim=1)\<close>, the indices it returns: along dimension 1, the positions of
  the \<open>k\<close> largest entries, largest first. torch leaves the order among equal entries
  open; here the lower position comes first. It raises RuntimeError when \<open>k\<close> exceeds
  the size of dimension 1, and IndexError when the tensor has no dimension 1.
\<close>

definition rank_desc :: "real list \<Rightarrow> nat list" where
  "rank_desc row = sort_key (\<lambda>c. - (row ! c)) [0..<length row]"

definition topk_indices :: "real tensor \<Rightarrow> nat \<Rightarrow> exn + nat tensor" where
  "topk_indices t k =
     (case shape t of
        b # n # rest \<Rightarrow>
          if n < k then Inl RuntimeError
          else Inr (tabulate (b # k # rest)
                 (\<lambda>idx. case idx of
                    i # j # r \<Rightarrow> rank_desc (map (\<lambda>c. entry t (i # c # r)) [0..<n]) ! j
                  | _ \<Rightarrow> 0))
      | _ \<Rightarrow> Inl IndexError)"









section \<open>The model object\<close>

text \<open>
  The two modules of the repository that \<open>selective_vit.py\<close> imports keep their
  constructor arguments.
\<close>

record scorer_module =
  sc_patch_size :: int

record selector_module =
  sel_patch_percentage :: real
  sel_threshold :: real
  sel_gaussian_std :: real

definition PatchImportanceScorer :: "int \<Rightarrow> scorer_module" where
  "PatchImportanceScorer patch_size' = \<lparr>sc_patch_size = patch_size'\<rparr>"

definition SpatialThresholdSelector :: "real \<Rightarrow> real \<Rightarrow> real \<Rightarrow> selector_module" where
  "SpatialThresholdSelector patch_percentage' threshold' gaussian_std' =
     \<lparr>sel_patch_percentage = patch_percentage', sel_threshold = threshold',
      sel_gaussian_std = gaussian_std'\<rparr>"

text \<open>
  The timm backbone. A module is the function its call computes, which may raise.
  timm's \<open>PatchEmbed\<close> keeps its sizes; its grid is \<open>img_size // patch_size\<close> on each
  side. \<open>nn.Linear\<close> keeps its two sizes. Whatever else the backbone holds is the
  extension part of the record.
\<close>

type_synonym module = "real tensor \<Rightarrow> exn + real tensor"

record patch_embed_module =
  pe_img_size :: int
  pe_patch_size :: int
  pe_in_chans :: nat
  pe_embed_dim :: nat
  pe_num_patches :: nat
  pe_forward :: module

record linear_module =
  in_features :: nat
  out_features :: nat
  lin_forward :: module

record vit_backbone =
  vit_embed_dim :: nat
  vit_patch_embed :: patch_embed_module
  vit_pos_embed :: "real tensor"
  vit_cls_token :: "real tensor"
  vit_pos_drop :: module
  vit_blocks :: module
  vit_norm :: module
  vit_head :: linear_module

text \<open>
  What construction creates anew with random initial values: the function a new patch
  embedding computes, given its constructor arguments; the samples
  \<open>nn.init.trunc_normal_\<close> draws (the \<open>i\<close>-th sample fills entry \<open>i\<close>); and the function a
  new linear layer computes, given its two sizes.
\<close>

record fresh_init =
  fresh_patch_embed :: "int \<Rightarrow> int \<Rightarrow> nat \<Rightarrow> nat \<Rightarrow> module"
  fresh_samples :: "nat \<Rightarrow> real"
  fresh_head :: "nat \<Rightarrow> nat \<Rightarrow> module"

definition PatchEmbed :: "int \<Rightarrow> int \<Rightarrow> nat \<Rightarrow> nat \<Rightarrow> module \<Rightarrow> patch_embed_module" where
  "PatchEmbed img_size' patch_size' in_chans' embed_dim' proj =
     \<lparr>pe_img_size = img_size', pe_patch_size = patch_size', pe_in_chans = in_chans',
      pe_embed_dim = embed_dim',
      pe_num_patches = nat ((img_size' div patch_size') * (img_size' div patch_size')),
      pe_forward = proj\<rparr>"

definition Linear :: "nat \<Rightarrow> nat \<Rightarrow> module \<Rightarrow> linear_module" where
  "Linear in_features' out_features' f =
     \<lparr>in_features = in_features', out_features = out_features', lin_forward = f\<rparr>"

definition trunc_normal :: "real tensor \<Rightarrow> (nat \<Rightarrow> real) \<Rightarrow> real tensor" where
  "trunc_normal t samples = t\<lparr>data := map samples [0..<length (data t)]\<rparr>"

record 'z model =
  patch_percentage :: real
  num_classes :: nat
  img_size :: int
  patch_size :: int
  vit_model_name :: string
  vit :: "'z vit_backbone_scheme"
  embed_dim :: nat
  scorer :: scorer_module
  selector :: selector_module
  num_patches :: nat

text \<open>\<open>selector_config.get(key, default)\<close> on a dict.\<close>

definition dict_get :: "(string \<rightharpoonup> real) \<Rightarrow> string \<Rightarrow> real \<Rightarrow> real" where
  "dict_get d key dflt = (case d key of None \<Rightarrow> dflt | Some v \<Rightarrow> v)"

text \<open>
  \<open>SelectiveMagnoViT.__init__\<close>. \<open>backbone\<close> is what
  \<open>timm.create_model(vit_model_name, pretrained=pretrained)\<close> returned, \<open>fresh\<close> the
  random initial values. The float literals 0.3 and 0.25 are the reals 3/10 and 1/4.
\<close>

definition SelectiveMagnoViT_init ::
  "real \<Rightarrow> nat \<Rightarrow> int \<Rightarrow> int \<Rightarrow> string \<Rightarrow> (string \<rightharpoonup> real) option \<Rightarrow> nat option \<Rightarrow>
   'z vit_backbone_scheme \<Rightarrow> fresh_init \<Rightarrow> exn + 'z model" where
  "SelectiveMagnoViT_init patch_percentage' num_classes' img_size' patch_size' vit_model_name'
     selector_config embed_dim' backbone fresh =
     (if \<not> (0 < patch_percentage' \<and> patch_percentage' \<le> 1) then Inl ValueError
      else then_do (py_mod img_size' patch_size') (\<lambda>r.
        if r \<noteq> 0 then Inl ValueError
        else
          let d = (case embed_dim' of None \<Rightarrow> vit_embed_dim backbone | Some d' \<Rightarrow> d');
              pe = PatchEmbed img_size' patch_size' 3 d
                (fresh_patch_embed fresh img_size' patch_size' 3 d);
              n = pe_num_patches pe;
              v = backbone
                \<lparr>vit_patch_embed := pe,
                 vit_pos_embed := trunc_normal (zeros [1, n + 1, d]) (fresh_samples fresh),
                 vit_head := Linear d num_classes' (fresh_head fresh d num_classes')\<rparr>;
              cfg = (case selector_config of None \<Rightarrow> Map.empty | Some c \<Rightarrow> c)
          in Inr \<lparr>patch_percentage = patch_percentage', num_classes = num_classes',
                  img_size = img_size', patch_size = patch_size',
                  vit_model_name = vit_model_name', vit = v, embed_dim = d,
                  scorer = PatchImportanceScorer patch_size',
                  selector = SpatialThresholdSelector patch_percentage'
                    (dict_get cfg ''threshold'' (3 / 10)) (dict_get cfg ''gaussian_std'' (1 / 4)),
                  num_patches = n\<rparr>))"

section \<open>The diagnostic accessors\<close>


definition get_selected_patch_indices ::
  "(scorer_module \<Rightarrow> module) \<Rightarrow> 'z model \<Rightarrow> real tensor \<Rightarrow> exn + nat tensor" where
  "get_selected_patch_indices sc m line_drawing =
     then_do (sc (scorer m) line_drawing) (\<lambda>patch_scores.
       case shape patch_scores of
         b # n # rest \<Rightarrow>
           (let k = max 1 (py_int (real n * patch_percentage m))
            in topk_indices patch_scores (nat k))
       | _ \<Rightarrow> Inl IndexError)"

definition get_patch_importance_map ::
  "(scorer_module \<Rightarrow> module) \<Rightarrow> 'z model \<Rightarrow> real tensor \<Rightarrow> exn + real tensor" where
  "get_patch_importance_map sc m line_drawing =
     then_do (sc (scorer m) line_drawing) (\<lambda>patch_scores.
       let num_patches_per_side = int (isqrt (num_patches m))
       in view patch_scores [- 1, 1, num_patches_per_side, num_patches_per_side])"

section \<open>The forward pass\<close>



section \<open>The patch scorer\<close>

text \<open>
  Modelled from the spec: the forward function of \<open>PatchImportanceScorer\<close>, whose file
  \<open>patch_scorer.py\<close> is not among the sources. Section 4.1: the line drawing of shape
  (B, 1, H, W) is partitioned into non-overlapping cells of side \<open>patch_size\<close>, the score
  of a cell is its mean absolute intensity, and the output of shape (B, num_patches)
  numbers the cells row-major. It serves as the scorer of the examples below; the
  properties of the accessors hold for any scorer.
\<close>

definition PatchImportanceScorer_forward :: "scorer_module \<Rightarrow> module" where
  "PatchImportanceScorer_forward s line_drawing =
     (case shape line_drawing of
        [b, c, h, w] \<Rightarrow>
          (let p = nat (sc_patch_size s); gh = h div p; gw = w div p
           in Inr (tabulate [b, gh * gw]
                (\<lambda>idx. case idx of
                   [i, n] \<Rightarrow>
                     (\<Sum>dy\<leftarrow>[0..<p]. \<Sum>dx\<leftarrow>[0..<p].
                        \<bar>entry line_drawing [i, 0, (n div gw) * p + dy, (n mod gw) * p + dx]\<bar>)
                     / real (p * p)
                 | _ \<Rightarrow> 0)))
      | _ \<Rightarrow> Inl RuntimeError)"

section \<open>The patch selector\<close>

text \<open>
  The rule of the specification for the number of selected patches:
  \<open>k = max(1, round(N * patch_percentage))\<close>.
\<close>

definition spec_num_selected :: "nat \<Rightarrow> real \<Rightarrow> int" where
  "spec_num_selected n p = max 1 (py_round (real n * p))"

text \<open>
  Modelled from the spec: the forward function of \<open>SpatialThresholdSelector\<close>, whose file
  \<open>patch_selecter.py\<close> is not among the sources. Section 4.2 leaves the spatial term
  open (section 9: a pluggable smoothing strategy), so the adjustment is a parameter:
  from \<open>gaussian_std\<close>, the line drawing, the batch element and its raw scores it gives
  the adjusted score of each patch.
\<close>

type_synonym adjustment = "real \<Rightarrow> real tensor \<Rightarrow> nat \<Rightarrow> real list \<Rightarrow> nat \<Rightarrow> real"

text \<open>
  Modelled from the spec: the two-tier policy of section 4.2 on one batch element.
  Patches are ranked by adjusted score, the lower index first among equals; the patches
  above the threshold are taken in rank order, up to \<open>k\<close>; when fewer than \<open>k\<close> are
  above it, the next-ranked patches fill the remainder; the selected indices are
  emitted in ascending order.
\<close>

definition select_row :: "nat \<Rightarrow> real \<Rightarrow> real list \<Rightarrow> nat list" where
  "select_row k threshold adjusted =
     (let ranking = rank_desc adjusted;
          above = filter (\<lambda>c. threshold < adjusted ! c) ranking;
          below = filter (\<lambda>c. \<not> threshold < adjusted ! c) ranking;
          chosen = (if k \<le> length above then take k above
                    else above @ take (k - length above) below)
      in sort chosen)"

text \<open>
  Modelled from the spec: the indices selected for batch element \<open>i\<close>, with
  \<open>k = max(1, round(N * patch_percentage))\<close>.
\<close>

definition selector_indices ::
  "adjustment \<Rightarrow> selector_module \<Rightarrow> nat \<Rightarrow> real tensor \<Rightarrow> real tensor \<Rightarrow> nat \<Rightarrow> nat list" where
  "selector_indices adj s n patch_scores line_drawing i =
     (let k = nat (spec_num_selected n (sel_patch_percentage s));
          raw = map (\<lambda>c. entry patch_scores [i, c]) [0..<n];
          adjusted = map (adj (sel_gaussian_std s) line_drawing i raw) [0..<n]
      in select_row k (sel_threshold s) adjusted)"

text \<open>
  Modelled from the spec: the output of section 4.2, of shape (B, k, D): the embedding
  of the \<open>j\<close>-th selected patch plus the positional embedding at its index + 1. The
  positional table is the (1, N + 1, D) tensor that \<open>forward\<close> passes. With no patch at
  all there is nothing to gather and the index is out of range.
\<close>

definition SpatialThresholdSelector_forward ::
  "adjustment \<Rightarrow> selector_module \<Rightarrow> real tensor \<Rightarrow> real tensor \<Rightarrow> real tensor \<Rightarrow> real tensor \<Rightarrow>
   exn + real tensor" where
  "SpatialThresholdSelector_forward adj s all_patches pos_embed patch_scores line_drawing =
     (case shape all_patches of
        [b, n, d] \<Rightarrow>
          (let k = nat (spec_num_selected n (sel_patch_percentage s))
           in if n < k then Inl IndexError
              else Inr (tabulate [b, k, d]
                     (\<lambda>ix. case ix of
                        [i, j, e] \<Rightarrow>
                          (let c = selector_indices adj s n patch_scores line_drawing i ! j
                           in entry all_patches [i, c, e] + entry pos_embed [0, c + 1, e])
                      | _ \<Rightarrow> 0)))
      | _ \<Rightarrow> Inl RuntimeError)"

text \<open>The adjustment that leaves the raw scores as they are, for the examples.\<close>

definition raw_adjustment :: adjustment where
  "raw_adjustment std line_drawing i raw c = raw ! c"

section \<open>Example objects\<close>

text \<open>
  A small backbone and initial values, for evaluating the definitions on concrete
  inputs. The patch embedding checks the image size as timm's does (an AssertionError
  when height or width is not \<open>img_size\<close>) and sums each cell over its pixels and
  channels into every embedding coordinate; the linear layer sums its input features
  into every output; dropout, blocks and norm are the identity. The embedding
  dimension is 1.
\<close>

definition example_patch_embed_forward :: "int \<Rightarrow> int \<Rightarrow> nat \<Rightarrow> nat \<Rightarrow> module" where
  "example_patch_embed_forward img_size' patch_size' in_chans' embed_dim' x =
     (case shape x of
        [b, c, h, w] \<Rightarrow>
          if int h \<noteq> img_size' \<or> int w \<noteq> img_size' then Inl AssertionError
          else (let p = nat patch_size'; g = w div p
                in Inr (tabulate [b, (h div p) * g, embed_dim']
                     (\<lambda>idx. \<Sum>ch\<leftarrow>[0..<c]. \<Sum>dy\<leftarrow>[0..<p]. \<Sum>dx\<leftarrow>[0..<p].
                        entry x [idx ! 0, ch, (idx ! 1 div g) * p + dy, (idx ! 1 mod g) * p + dx])))
      | _ \<Rightarrow> Inl ValueError)"

definition example_linear_forward :: "nat \<Rightarrow> nat \<Rightarrow> module" where
  "example_linear_forward in_features' out_features' x =
     (case shape x of
        [b, d] \<Rightarrow>
          if d \<noteq> in_features' then Inl RuntimeError
          else Inr (tabulate [b, out_features']
                 (\<lambda>idx. \<Sum>e\<leftarrow>[0..<d]. entry x [idx ! 0, e]))
      | _ \<Rightarrow> Inl RuntimeError)"

definition example_backbone :: vit_backbone where
  "example_backbone =
     \<lparr>vit_embed_dim = 1,
      vit_patch_embed = PatchEmbed 224 16 3 1 (example_patch_embed_forward 224 16 3 1),
      vit_pos_embed = zeros [1, 197, 1],
      vit_cls_token = \<lparr>shape = [1, 1, 1], data = [1]\<rparr>,
      vit_pos_drop = Inr, vit_blocks = Inr, vit_norm = Inr,
      vit_head = Linear 1 1000 (example_linear_forward 1 1000)\<rparr>"

definition example_fresh :: fresh_init where
  "example_fresh =
     \<lparr>fresh_patch_embed = example_patch_embed_forward,
      fresh_samples = (\<lambda>i. real i / 100),
      fresh_head = example_linear_forward\<rparr>"


definition example_line_drawing :: "real tensor" where
  "example_line_drawing =
     \<lparr>shape = [1, 1, 4, 4],
      data = [1, 1, 0, 0,
              1, 1, 0, 1,
              0, 0, 0, 0,
              1, 0, 0, 0]\<rparr>"

definition example_scores :: "real tensor" where
  "example_scores = \<lparr>shape = [1, 4], data = [1, 1 / 4, 1 / 4, 0]\<rparr>"

text \<open>
  Four patch embeddings of dimension 1, a positional table of five entries, raw scores
  whose ranking (3, 1, 0, 2) is not the index order, and a selector keeping half of the
  patches at threshold 3/10.
\<close>

definition example_patches :: "real tensor" where
  "example_patches = \<lparr>shape = [1, 4, 1], data = [10, 20, 30, 40]\<rparr>"

definition example_pos_embed :: "real tensor" where
  "example_pos_embed = \<lparr>shape = [1, 5, 1], data = [1, 2, 3, 4, 5]\<rparr>"

definition example_ranked_scores :: "real tensor" where
  "example_ranked_scores = \<lparr>shape = [1, 4], data = [1 / 4, 1 / 2, 0, 1]\<rparr>"

definition example_selector :: selector_module where
  "example_selector = SpatialThresholdSelector (1 / 2) (3 / 10) (1 / 4)"



section \<open>Construction\<close>

text \<open>Construction returns a model exactly for a valid configuration, and then this one.\<close>

lemma init_Inr_iff:
  "SelectiveMagnoViT_init pp nc isz psz name cfg ed bb fr = Inr m \<longleftrightarrow>
     0 < pp \<and> pp \<le> 1 \<and> psz \<noteq> 0 \<and> isz mod psz = 0 \<and>
     m = \<lparr>patch_percentage = pp, num_classes = nc, img_size = isz, patch_size = psz,
          vit_model_name = name,
          vit = bb\<lparr>vit_patch_embed :=
                     PatchEmbed isz psz 3 (case ed of None \<Rightarrow> vit_embed_dim bb | Some d' \<Rightarrow> d')
                       (fresh_patch_embed fr isz psz 3
                          (case ed of None \<Rightarrow> vit_embed_dim bb | Some d' \<Rightarrow> d')),
                   vit_pos_embed :=
                     trunc_normal
                       (zeros [1, nat ((isz div psz) * (isz div psz)) + 1,
                               (case ed of None \<Rightarrow> vit_embed_dim bb | Some d' \<Rightarrow> d')])
                       (fresh_samples fr),
                   vit_head :=
                     Linear (case ed of None \<Rightarrow> vit_embed_dim bb | Some d' \<Rightarrow> d') nc
                       (fresh_head fr (case ed of None \<Rightarrow> vit_embed_dim bb | Some d' \<Rightarrow> d')
                          nc)\<rparr>,
          embed_dim = (case ed of None \<Rightarrow> vit_embed_dim bb | Some d' \<Rightarrow> d'),
          scorer = PatchImportanceScorer psz,
          selector = SpatialThresholdSelector pp
            (dict_get (case cfg of None \<Rightarrow> Map.empty | Some c \<Rightarrow> c) ''threshold'' (3 / 10))
            (dict_get (case cfg of None \<Rightarrow> Map.empty | Some c \<Rightarrow> c) ''gaussian_std'' (1 / 4)),
          num_patches = nat ((isz div psz) * (isz div psz))\<rparr>"
  by (auto simp: SelectiveMagnoViT_init_def then_do_def py_mod_def Let_def PatchEmbed_def)

lemma example_scorer_forward:
  "PatchImportanceScorer_forward (PatchImportanceScorer 2) example_line_drawing = Inr example_scores"
  by code_simp

lemma example_model:
  assumes "0 < p" "p \<le> 1"
  shows "\<exists>m. SelectiveMagnoViT_init p 10 4 2 ''vit_tiny_patch16_224.augreg_in21k'' None None
           example_backbone example_fresh = Inr m \<and>
         patch_percentage m = p \<and> scorer m = PatchImportanceScorer 2 \<and> num_patches m = 4"
  using assms by (simp add: init_Inr_iff)




text \<open>
  C9: construction replaces exactly three components of the backbone: the patch
  embedding (a new \<open>PatchEmbed\<close> for the configured sizes), the positional embedding
  (of shape (1, N + 1, embed_dim) for the \<open>N\<close> = (img_size / patch_size) squared
  patches, every entry a sample drawn by \<open>trunc_normal_\<close>, none taken from the
  pretrained table) and the head (a new \<open>Linear\<close> with \<open>num_classes\<close> outputs). The
  CLS token, the dropout, the blocks, the norm and everything else the backbone holds
  are those of the pretrained backbone.
\<close>

theorem init_frame:
  assumes "SelectiveMagnoViT_init pp nc isz psz name cfg ed bb fr = Inr m"
  shows "vit m = bb\<lparr>vit_patch_embed := vit_patch_embed (vit m),
                     vit_pos_embed := vit_pos_embed (vit m),
                     vit_head := vit_head (vit m)\<rparr> \<and>
         vit_embed_dim (vit m) = vit_embed_dim bb \<and>
         vit_cls_token (vit m) = vit_cls_token bb \<and>
         vit_pos_drop (vit m) = vit_pos_drop bb \<and>
         vit_blocks (vit m) = vit_blocks bb \<and>
         vit_norm (vit m) = vit_norm bb \<and>
         vit_backbone.more (vit m) = vit_backbone.more bb \<and>
         vit_patch_embed (vit m) =
           PatchEmbed isz psz 3 (embed_dim m) (fresh_patch_embed fr isz psz 3 (embed_dim m)) \<and>
         shape (vit_pos_embed (vit m)) =
           [1, nat ((isz div psz) * (isz div psz)) + 1, embed_dim m] \<and>
         data (vit_pos_embed (vit m)) =
           map (fresh_samples fr) [0..<(nat ((isz div psz) * (isz div psz)) + 1) * embed_dim m] \<and>
         vit_head (vit m) = Linear (embed_dim m) nc (fresh_head fr (embed_dim m) nc) \<and>
         out_features (vit_head (vit m)) = nc \<and>
         num_patches m = nat ((isz div psz) * (isz div psz)) \<and>
         psz * (isz div psz) = isz"
  using assms unfolding init_Inr_iff
  by (auto simp: trunc_normal_def zeros_def Linear_def)

text \<open>
  At \<open>img_size = 64\<close>, \<open>patch_size = 4\<close> and ten classes: 257 positions, ten outputs, and
  the CLS token of the pretrained backbone.
\<close>

theorem init_frame_witness:
  "\<exists>m. SelectiveMagnoViT_init (2 / 5) 10 64 4 ''vit_tiny_patch16_224.augreg_in21k'' None None
           example_backbone example_fresh = Inr m \<and>
        shape (vit_pos_embed (vit m)) = [1, 257, 1] \<and>
        out_features (vit_head (vit m)) = 10 \<and>
        vit_cls_token (vit m) = vit_cls_token example_backbone \<and>
        vit_blocks (vit m) = vit_blocks example_backbone \<and>
        vit_norm (vit m) = vit_norm example_backbone"
proof -
  obtain m where m: "SelectiveMagnoViT_init (2 / 5) 10 64 4 ''vit_tiny_patch16_224.augreg_in21k''
      None None example_backbone example_fresh = Inr m"
    and d: "embed_dim m = 1"
    by (auto simp: init_Inr_iff example_backbone_def)
  from init_frame [OF m] d have "shape (vit_pos_embed (vit m)) = [1, 257, 1] \<and>
        out_features (vit_head (vit m)) = 10 \<and>
        vit_cls_token (vit m) = vit_cls_token example_backbone \<and>
        vit_blocks (vit m) = vit_blocks example_backbone \<and>
        vit_norm (vit m) = vit_norm example_backbone"
    by (simp add: Linear_def)
  with m show ?thesis by blast
qed

text \<open>
  C10: the selector is always constructed with the model's \<open>patch_percentage\<close>; with no
  \<open>selector_config\<close>, or one without the key, its threshold is 0.3 and its
  \<open>gaussian_std\<close> is 0.25; a key that is present supplies the value.
\<close>

theorem init_selector_defaults:
  assumes "SelectiveMagnoViT_init pp nc isz psz name cfg ed bb fr = Inr m"
  shows "sel_patch_percentage (selector m) = pp \<and>
         ((cfg = None \<or> (\<exists>d. cfg = Some d \<and> d ''threshold'' = None)) \<longrightarrow>
            sel_threshold (selector m) = 3 / 10) \<and>
         ((cfg = None \<or> (\<exists>d. cfg = Some d \<and> d ''gaussian_std'' = None)) \<longrightarrow>
            sel_gaussian_std (selector m) = 1 / 4) \<and>
         (\<forall>d v. cfg = Some d \<and> d ''threshold'' = Some v \<longrightarrow> sel_threshold (selector m) = v) \<and>
         (\<forall>d v. cfg = Some d \<and> d ''gaussian_std'' = Some v \<longrightarrow>
            sel_gaussian_std (selector m) = v)"
  using assms unfolding init_Inr_iff
  by (auto simp: SpatialThresholdSelector_def dict_get_def)

lemma example_init_with_config:
  "\<exists>m. SelectiveMagnoViT_init (2 / 5) 10 64 4 ''vit_tiny_patch16_224.augreg_in21k''
         (Some [''gaussian_std'' \<mapsto> 1 / 2]) None example_backbone example_fresh = Inr m"
  by (simp add: init_Inr_iff)

text \<open>A configuration that gives \<open>gaussian_std\<close> only: the threshold is the default.\<close>

theorem init_selector_defaults_witness:
  "\<exists>m. SelectiveMagnoViT_init (2 / 5) 10 64 4 ''vit_tiny_patch16_224.augreg_in21k''
           (Some [''gaussian_std'' \<mapsto> 1 / 2]) None example_backbone example_fresh = Inr m \<and>
        sel_patch_percentage (selector m) = 2 / 5 \<and>
        sel_threshold (selector m) = 3 / 10 \<and>
        sel_gaussian_std (selector m) = 1 / 2"
proof -
  obtain m where m: "SelectiveMagnoViT_init (2 / 5) 10 64 4 ''vit_tiny_patch16_224.augreg_in21k''
           (Some [''gaussian_std'' \<mapsto> 1 / 2]) None example_backbone example_fresh = Inr m"
    using example_init_with_config by blast
  have "[''gaussian_std'' \<mapsto> 1 / 2 :: real] ''threshold'' = None"
       "[''gaussian_std'' \<mapsto> 1 / 2 :: real] ''gaussian_std'' = Some (1 / 2)"
    by simp_all
  with init_selector_defaults [OF m] have "sel_patch_percentage (selector m) = 2 / 5 \<and>
        sel_threshold (selector m) = 3 / 10 \<and>
        sel_gaussian_std (selector m) = 1 / 2"
    by blast
  with m show ?thesis by blast
qed

section \<open>Tensor indexing\<close>

text \<open>
  \<open>tabulate\<close> builds a well-formed tensor whose entry at a multi-index within the shape
  is the tabulated value.
\<close>

lemma length_indices: "length (indices sh) = prod_list sh"
proof (induction sh)
  case Nil
  show ?case by simp
next
  case (Cons d ds)
  have "length (concat (map (\<lambda>i. map ((#) i) (indices ds)) [0..<d])) = d * prod_list ds"
    by (simp add: length_concat comp_def Cons.IH sum_list_triv)
  then show ?case by simp
qed

lemma set_indices: "idx \<in> set (indices sh) \<longleftrightarrow> list_all2 (<) idx sh"
proof (induction sh arbitrary: idx)
  case Nil
  show ?case by auto
next
  case (Cons d ds)
  show ?case
    by (cases idx) (auto simp: Cons.IH image_iff Bex_def)
qed

lemma length_concat_blocks:
  "(\<And>i. i < d \<Longrightarrow> length (g i) = p) \<Longrightarrow> length (concat (map g [0..<d])) = d * p"
  by (induction d) simp_all

lemma nth_concat_blocks:
  assumes "\<And>i. i < d \<Longrightarrow> length (g i) = p" "i < d" "j < p"
  shows "concat (map g [0..<d]) ! (i * p + j) = g i ! j"
  using assms
proof (induction d)
  case 0
  then show ?case by simp
next
  case (Suc d)
  have len: "length (concat (map g [0..<d])) = d * p"
    using Suc.prems(1) by (intro length_concat_blocks) simp
  show ?case
  proof (cases "i < d")
    case True
    then have "i * p + j < d * p"
      using Suc.prems(3)
      by (metis add.commute mult_Suc less_le_trans add_less_cancel_left Suc_leI mult_le_mono1)
    with True Suc show ?thesis by (simp add: nth_append len)
  next
    case False
    with Suc.prems have "i = d" by simp
    then show ?thesis by (simp add: nth_append len)
  qed
qed

lemma offset_indices:
  "list_all2 (<) idx sh \<Longrightarrow> offset sh idx < prod_list sh \<and> indices sh ! offset sh idx = idx"
proof (induction sh arbitrary: idx)
  case Nil
  then show ?case by simp
next
  case (Cons d ds)
  then obtain i js where idx: "idx = i # js" and i: "i < d" and js: "list_all2 (<) js ds"
    by (cases idx) auto
  from Cons.IH [OF js] have o: "offset ds js < prod_list ds" and n: "indices ds ! offset ds js = js"
    by simp_all
  have "i * prod_list ds + offset ds js < Suc i * prod_list ds" using o by simp
  also have "\<dots> \<le> d * prod_list ds" using i by (intro mult_le_mono1) simp
  finally have lt: "i * prod_list ds + offset ds js < d * prod_list ds" .
  have "concat (map (\<lambda>i. map ((#) i) (indices ds)) [0..<d]) ! (i * prod_list ds + offset ds js)
        = map ((#) i) (indices ds) ! offset ds js"
    by (rule nth_concat_blocks) (simp_all add: length_indices i o)
  then show ?case using lt o n by (simp add: idx length_indices)
qed

lemma entry_tabulate:
  "list_all2 (<) idx sh \<Longrightarrow> entry (tabulate sh f) idx = f idx"
  using offset_indices [of idx sh]
  by (simp add: entry_def tabulate_def length_indices)

lemma wf_tabulate: "wf_tensor (tabulate sh f)"
  by (simp add: wf_tensor_def tabulate_def length_indices)

lemma shape_tabulate: "shape (tabulate sh f) = sh"
  by (simp add: tabulate_def)

section \<open>The number of selected patches\<close>

lemma py_int_nonneg: "0 \<le> x \<Longrightarrow> py_int x = \<lfloor>x\<rfloor>"
  by (simp add: py_int_def)


lemma floor_scaled_le:
  assumes "0 < p" "p \<le> 1"
  shows "\<lfloor>real n * p\<rfloor> \<le> int n"
proof -
  have "real n * p \<le> real n" using assms by (simp add: mult_left_le)
  then have "\<lfloor>real n * p\<rfloor> \<le> \<lfloor>real n\<rfloor>" by (rule floor_mono)
  then show ?thesis by simp
qed

lemma num_selected_le:
  assumes "0 < p" "p \<le> 1" "0 < n"
  shows "nat (max 1 (py_int (real n * p))) \<le> n" "0 < nat (max 1 (py_int (real n * p)))"
proof -
  have "0 \<le> real n * p" using assms by simp
  then have "py_int (real n * p) = \<lfloor>real n * p\<rfloor>" by (rule py_int_nonneg)
  with floor_scaled_le [OF assms(1,2), of n] assms(3)
  show "nat (max 1 (py_int (real n * p))) \<le> n" by simp
  show "0 < nat (max 1 (py_int (real n * p)))" by simp
qed




section \<open>Top-k by raw score\<close>

lemma set_rank_desc: "set (rank_desc row) = {0..<length row}"
  by (simp add: rank_desc_def)

lemma distinct_rank_desc: "distinct (rank_desc row)"
  by (simp add: rank_desc_def)

lemma length_rank_desc: "length (rank_desc row) = length row"
  by (simp add: rank_desc_def)

lemma sorted_rank_desc: "sorted (map (\<lambda>c. - (row ! c)) (rank_desc row))"
  by (simp add: rank_desc_def)

lemma sorted_take_drop:
  assumes "sorted (map f xs)" "x \<in> set (take k xs)" "y \<in> set (drop k xs)"
  shows "f x \<le> f y"
proof -
  have "sorted (map f (take k xs) @ map f (drop k xs))"
    using assms(1) by (simp flip: map_append)
  then show ?thesis using assms(2,3) by (auto simp: sorted_append)
qed

lemma take_rank_desc_dominates:
  assumes "c \<in> set (take k (rank_desc row))" "c' < length row"
    "c' \<notin> set (take k (rank_desc row))"
  shows "row ! c' \<le> row ! c"
proof -
  have "c' \<in> set (rank_desc row)" using assms(2) by (simp add: set_rank_desc)
  then have "c' \<in> set (take k (rank_desc row)) \<union> set (drop k (rank_desc row))"
    by (simp flip: set_append)
  with assms(3) have "c' \<in> set (drop k (rank_desc row))" by simp
  from sorted_take_drop [OF sorted_rank_desc assms(1) this] show ?thesis by simp
qed

lemma map_nth_take: "k \<le> length xs \<Longrightarrow> map (\<lambda>j. xs ! j) [0..<k] = take k xs"
  by (simp add: list_eq_iff_nth_eq)

lemma topk_indices_row:
  assumes "shape t = [b, n]" "k \<le> n" "i < b"
  shows "\<exists>idx. topk_indices t k = Inr idx \<and> shape idx = [b, k] \<and> wf_tensor idx \<and>
           map (\<lambda>j. entry idx [i, j]) [0..<k]
             = take k (rank_desc (map (\<lambda>c. entry t [i, c]) [0..<n]))"
proof -
  let ?f = "\<lambda>idx. case idx of
                    i # j # r \<Rightarrow> rank_desc (map (\<lambda>c. entry t (i # c # r)) [0..<n]) ! j
                  | _ \<Rightarrow> 0"
  have eq: "topk_indices t k = Inr (tabulate [b, k] ?f)"
    using assms(1,2) by (simp add: topk_indices_def)
  have "map (\<lambda>j. entry (tabulate [b, k] ?f) [i, j]) [0..<k]
        = map (\<lambda>j. rank_desc (map (\<lambda>c. entry t [i, c]) [0..<n]) ! j) [0..<k]"
    using assms(3) by (intro map_cong refl) (simp add: entry_tabulate)
  also have "\<dots> = take k (rank_desc (map (\<lambda>c. entry t [i, c]) [0..<n]))"
    using assms(2) by (intro map_nth_take) (simp add: length_rank_desc)
  finally show ?thesis
    using eq by (simp add: shape_tabulate wf_tabulate)
qed

text \<open>
  C7: for a scorer output of shape (B, N) with \<open>N > 0\<close>, \<open>get_selected_patch_indices\<close>
  returns a well-formed index tensor of shape (B, k), \<open>k = max(1, int(N * patch_percentage))\<close>;
  in every row the \<open>k\<close> indices are distinct patch indices below \<open>N\<close>, and the raw score
  of each of them is at least the raw score of every patch that was not returned. No
  spatial term enters: the ranking is on the scorer's output alone.
\<close>

theorem selected_indices_top_k:
  assumes "sc (scorer m) line_drawing = Inr patch_scores"
    and "shape patch_scores = [b, n]" and "0 < n"
    and "0 < patch_percentage m" and "patch_percentage m \<le> 1"
  shows "\<exists>idx k. get_selected_patch_indices sc m line_drawing = Inr idx \<and>
           k = nat (max 1 (py_int (real n * patch_percentage m))) \<and>
           0 < k \<and> k \<le> n \<and> shape idx = [b, k] \<and> wf_tensor idx \<and>
           (\<forall>i<b. distinct (map (\<lambda>j. entry idx [i, j]) [0..<k]) \<and>
              (\<forall>j<k. entry idx [i, j] < n) \<and>
              (\<forall>j<k. \<forall>c<n. c \<notin> set (map (\<lambda>j. entry idx [i, j]) [0..<k]) \<longrightarrow>
                 entry patch_scores [i, c] \<le> entry patch_scores [i, entry idx [i, j]]))"
proof -
  define k where "k = nat (max 1 (py_int (real n * patch_percentage m)))"
  have kn: "k \<le> n" and k0: "0 < k"
    unfolding k_def using num_selected_le [OF assms(4,5,3)] by simp_all
  have call: "get_selected_patch_indices sc m line_drawing = topk_indices patch_scores k"
    using assms(1,2) by (simp add: get_selected_patch_indices_def then_do_def k_def)
  show ?thesis
  proof (cases "b = 0")
    case True
    have "topk_indices patch_scores k = Inr (tabulate [b, k] (\<lambda>idx. case idx of
                    i # j # r \<Rightarrow> rank_desc (map (\<lambda>c. entry patch_scores (i # c # r)) [0..<n]) ! j
                  | _ \<Rightarrow> 0))"
      using assms(2) kn by (simp add: topk_indices_def)
    then show ?thesis
      using True call kn k0 by (simp add: shape_tabulate wf_tabulate k_def)
  next
    case False
    then have "0 < b" by simp
    from topk_indices_row [OF assms(2) kn this]
    obtain idx where idx: "topk_indices patch_scores k = Inr idx" "shape idx = [b, k]"
      "wf_tensor idx" by blast
    have rows: "\<forall>i<b. distinct (map (\<lambda>j. entry idx [i, j]) [0..<k]) \<and>
              (\<forall>j<k. entry idx [i, j] < n) \<and>
              (\<forall>j<k. \<forall>c<n. c \<notin> set (map (\<lambda>j. entry idx [i, j]) [0..<k]) \<longrightarrow>
                 entry patch_scores [i, c] \<le> entry patch_scores [i, entry idx [i, j]])"
    proof (intro allI impI)
      fix i assume i: "i < b"
      let ?row = "map (\<lambda>c. entry patch_scores [i, c]) [0..<n]"
      let ?sel = "map (\<lambda>j. entry idx [i, j]) [0..<k]"
      from topk_indices_row [OF assms(2) kn i] idx(1)
      have sel: "?sel = take k (rank_desc ?row)" by simp
      have d: "distinct ?sel" unfolding sel by (simp add: distinct_rank_desc)
      have mem: "\<And>j. j < k \<Longrightarrow> entry idx [i, j] \<in> set ?sel" by simp
      have r: "\<forall>j<k. entry idx [i, j] < n"
      proof (intro allI impI)
        fix j assume "j < k"
        then have "entry idx [i, j] \<in> set (take k (rank_desc ?row))"
          using mem sel by simp
        then have "entry idx [i, j] \<in> set (rank_desc ?row)" by (rule in_set_takeD)
        then show "entry idx [i, j] < n" by (simp add: set_rank_desc)
      qed
      have dom: "\<forall>j<k. \<forall>c<n. c \<notin> set ?sel \<longrightarrow>
                 entry patch_scores [i, c] \<le> entry patch_scores [i, entry idx [i, j]]"
      proof (intro allI impI)
        fix j c assume j: "j < k" and c: "c < n" and nc: "c \<notin> set ?sel"
        have a: "entry idx [i, j] \<in> set (take k (rank_desc ?row))" using mem [OF j] sel by simp
        have b: "c \<notin> set (take k (rank_desc ?row))" using nc sel by simp
        have "?row ! c \<le> ?row ! entry idx [i, j]"
          by (rule take_rank_desc_dominates [OF a _ b]) (simp add: c)
        then show "entry patch_scores [i, c] \<le> entry patch_scores [i, entry idx [i, j]]"
          using c r j by simp
      qed
      show "distinct ?sel \<and> (\<forall>j<k. entry idx [i, j] < n) \<and>
              (\<forall>j<k. \<forall>c<n. c \<notin> set ?sel \<longrightarrow>
                 entry patch_scores [i, c] \<le> entry patch_scores [i, entry idx [i, j]])"
        using d r dom by blast
    qed
    show ?thesis
      unfolding k_def [symmetric]
      by (rule exI [of _ idx], rule exI [of _ k]) (simp add: call idx rows kn k0)
  qed
qed

text \<open>The example line drawing at 3/4: three of the four patches come back.\<close>

theorem selected_indices_top_k_witness:
  "\<exists>m idx. SelectiveMagnoViT_init (3 / 4) 10 4 2 ''vit_tiny_patch16_224.augreg_in21k'' None None
           example_backbone example_fresh = Inr m \<and>
     PatchImportanceScorer_forward (scorer m) example_line_drawing = Inr example_scores \<and>
     get_selected_patch_indices PatchImportanceScorer_forward m example_line_drawing = Inr idx \<and>
     shape idx = [1, 3] \<and>
     distinct (map (\<lambda>j. entry idx [0, j]) [0..<3]) \<and>
     entry idx [0, 0] < 4 \<and> entry idx [0, 1] < 4 \<and> entry idx [0, 2] < 4"
proof -
  obtain m where m: "SelectiveMagnoViT_init (3 / 4) 10 4 2 ''vit_tiny_patch16_224.augreg_in21k''
      None None example_backbone example_fresh = Inr m"
    and pp: "patch_percentage m = 3 / 4" and sc: "scorer m = PatchImportanceScorer 2"
    using example_model [of "3 / 4"] by auto
  have s: "PatchImportanceScorer_forward (scorer m) example_line_drawing = Inr example_scores"
    by (simp add: sc example_scorer_forward)
  have sh: "shape example_scores = [1, 4]" by (simp add: example_scores_def)
  have k: "nat (max 1 (py_int (real 4 * patch_percentage m))) = 3"
    by (simp add: pp py_int_def)
  from selected_indices_top_k
    [of PatchImportanceScorer_forward m example_line_drawing example_scores 1 4, OF s sh] pp
  obtain idx where "get_selected_patch_indices PatchImportanceScorer_forward m example_line_drawing
      = Inr idx" "shape idx = [1, 3]"
    "\<forall>i<1. distinct (map (\<lambda>j. entry idx [i, j]) [0..<3]) \<and> (\<forall>j<3. entry idx [i, j] < 4)"
    unfolding k by auto
  then show ?thesis using m s by auto
qed

section \<open>The importance map\<close>

lemma isqrt_square: "isqrt (g * g) = g"
proof -
  have le: "g \<le> g * g" by (cases g) simp_all
  have "[0..<Suc (g * g)] = [0..<Suc g] @ [Suc g..<Suc (g * g)]"
    using le by (metis Suc_le_mono upt_add_eq_append le0 le_iff_add)
  moreover have "filter (\<lambda>s. s * s \<le> g * g) [0..<Suc g] = [0..<Suc g]"
    by (rule filter_True) (auto intro: mult_le_mono)
  moreover have "filter (\<lambda>s. s * s \<le> g * g) [Suc g..<Suc (g * g)] = []"
  proof (rule filter_False, rule ballI)
    fix s assume "s \<in> set [Suc g..<Suc (g * g)]"
    then have "Suc g \<le> s" by (simp only: set_upt atLeastLessThan_iff)
    then have gs: "g < s" by simp
    have "g * g < s * s" using gs by (simp add: mult_strict_mono)
    then show "\<not> s * s \<le> g * g" by simp
  qed
  ultimately have "filter (\<lambda>s. s * s \<le> g * g) [0..<Suc (g * g)] = [0..<Suc g]"
    by simp
  then show ?thesis by (simp add: isqrt_def)
qed

lemma prod_list_map_int: "prod_list (map int ns) = int (prod_list ns)"
  by (induction ns) simp_all

lemma filter_sizes: "filter (\<lambda>d. d \<noteq> - 1) (map int ns) = map int ns"
  by (induction ns) simp_all

lemma no_minus_one: "filter (\<lambda>d. d = - 1) (map int ns) = []"
  by (induction ns) simp_all

lemma no_negative_size: "\<not> list_ex (\<lambda>d. d < - 1) (map int ns)"
  by (induction ns) simp_all

lemma no_inferred_size: "\<not> list_ex (\<lambda>d. d = - 1) (map int ns)"
  by (induction ns) simp_all

lemma view_sizes:
  "view t (map int ns) =
     (if prod_list ns = numel t then Inr \<lparr>shape = ns, data = data t\<rparr> else Inl RuntimeError)"
  by (simp add: view_def Let_def filter_sizes no_minus_one no_negative_size no_inferred_size
      prod_list_map_int comp_def)

lemma view_grid_cases:
  "view t [- 1, 1, int s, int s] =
     (if s = 0 \<or> numel t mod (s * s) \<noteq> 0 then Inl RuntimeError
      else Inr \<lparr>shape = [numel t div (s * s), 1, s, s], data = data t\<rparr>)"
proof -
  have m: "int (numel t) mod (int s * int s) = int (numel t mod (s * s))"
    by (simp add: zmod_int)
  have d: "nat (int (numel t) div (int s * int s)) = numel t div (s * s)"
    by (simp add: zdiv_int nat_div_distrib flip: of_nat_mult)
  show ?thesis
    unfolding view_def Let_def
    by (simp add: m d del: of_nat_mult)
qed

lemma view_grid_back:
  assumes "wf_tensor t" "view t [- 1, 1, int s, int s] = Inr im"
  shows "data im = data t" "view im (map int (shape t)) = Inr t"
proof -
  from assms(2) have s: "s \<noteq> 0" and dv: "numel t mod (s * s) = 0"
    and im: "im = \<lparr>shape = [numel t div (s * s), 1, s, s], data = data t\<rparr>"
    by (auto simp: view_grid_cases split: if_splits)
  show "data im = data t" by (simp add: im)
  have "numel im = numel t div (s * s) * (s * s)" by (simp add: im numel_def)
  also have "\<dots> = numel t" using dv by (metis div_mult_mod_eq add.right_neutral)
  finally have "prod_list (shape t) = numel im" by (simp add: numel_def)
  then show "view im (map int (shape t)) = Inr t"
    by (simp add: view_sizes im)
qed

text \<open>
  C6: whenever the scorer returns a well-formed tensor and \<open>get_patch_importance_map\<close>
  returns a map, the map holds the scorer's entries in the same order, and viewing it
  under the scorer's shape again gives exactly the scorer's output. When the scorer's
  output has shape (B, num_patches) and \<open>num_patches\<close> is the square of a positive grid
  side \<open>g\<close>, as construction makes it, the map is returned and has shape (B, 1, g, g).
\<close>

theorem importance_map_roundtrip:
  assumes "sc (scorer m) line_drawing = Inr patch_scores" and "wf_tensor patch_scores"
  shows "(\<forall>im. get_patch_importance_map sc m line_drawing = Inr im \<longrightarrow>
            data im = data patch_scores \<and>
            view im (map int (shape patch_scores)) = Inr patch_scores) \<and>
         (\<forall>b g. shape patch_scores = [b, num_patches m] \<and> num_patches m = g * g \<and> 0 < g \<longrightarrow>
            (\<exists>im. get_patch_importance_map sc m line_drawing = Inr im \<and>
                  shape im = [b, 1, g, g] \<and> wf_tensor im \<and>
                  view im [int b, int (num_patches m)] = Inr patch_scores))"
proof -
  have flat: "data im = data patch_scores \<and>
            view im (map int (shape patch_scores)) = Inr patch_scores"
    if "get_patch_importance_map sc m line_drawing = Inr im" for im
  proof -
  from that have "get_patch_importance_map sc m line_drawing = Inr im" .
  then have "view patch_scores [- 1, 1, int (isqrt (num_patches m)), int (isqrt (num_patches m))]
      = Inr im"
    using assms(1) by (simp add: get_patch_importance_map_def then_do_def Let_def)
  from view_grid_back [OF assms(2) this]
  show "data im = data patch_scores \<and>
            view im (map int (shape patch_scores)) = Inr patch_scores"
    by simp
  qed
  have grid: "\<exists>im. get_patch_importance_map sc m line_drawing = Inr im \<and>
                  shape im = [b, 1, g, g] \<and> wf_tensor im \<and>
                  view im [int b, int (num_patches m)] = Inr patch_scores"
    if h: "shape patch_scores = [b, num_patches m] \<and> num_patches m = g * g \<and> 0 < g" for b g
  proof -
  let ?im = "\<lparr>shape = [b, 1, g, g], data = data patch_scores\<rparr>"
  have n: "numel patch_scores = b * (g * g)" using h by (simp add: numel_def)
  have "get_patch_importance_map sc m line_drawing = view patch_scores [- 1, 1, int g, int g]"
    using assms(1) h
    by (simp add: get_patch_importance_map_def then_do_def isqrt_square Let_def)
  also have "\<dots> = Inr ?im"
    using h by (simp add: view_grid_cases n)
  finally have 1: "get_patch_importance_map sc m line_drawing = Inr ?im" .
  have 2: "wf_tensor ?im" using assms(2) h by (simp add: wf_tensor_def)
  have "view ?im (map int (shape patch_scores)) = Inr patch_scores"
    using view_grid_back(2) [OF assms(2), of g ?im] 1
      \<open>view patch_scores [- 1, 1, int g, int g] = Inr ?im\<close> by simp
  then have 3: "view ?im [int b, int (num_patches m)] = Inr patch_scores"
    using h by simp
  show "\<exists>im. get_patch_importance_map sc m line_drawing = Inr im \<and>
                  shape im = [b, 1, g, g] \<and> wf_tensor im \<and>
                  view im [int b, int (num_patches m)] = Inr patch_scores"
    using 1 2 3 by simp
  qed
  show ?thesis using flat grid by blast
qed

text \<open>The example line drawing: a 2 by 2 map that flattens back to the four scores.\<close>

theorem importance_map_roundtrip_witness:
  "\<exists>m im. SelectiveMagnoViT_init (3 / 4) 10 4 2 ''vit_tiny_patch16_224.augreg_in21k'' None None
           example_backbone example_fresh = Inr m \<and>
     PatchImportanceScorer_forward (scorer m) example_line_drawing = Inr example_scores \<and>
     get_patch_importance_map PatchImportanceScorer_forward m example_line_drawing = Inr im \<and>
     shape im = [1, 1, 2, 2] \<and>
     view im [1, 4] = Inr example_scores"
proof -
  obtain m where m: "SelectiveMagnoViT_init (3 / 4) 10 4 2 ''vit_tiny_patch16_224.augreg_in21k''
      None None example_backbone example_fresh = Inr m"
    and sc: "scorer m = PatchImportanceScorer 2" and np: "num_patches m = 4"
    using example_model [of "3 / 4"] by auto
  have s: "PatchImportanceScorer_forward (scorer m) example_line_drawing = Inr example_scores"
    by (simp add: sc example_scorer_forward)
  have wf: "wf_tensor example_scores" by (simp add: example_scores_def wf_tensor_def)
  have sh: "shape example_scores = [1, num_patches m]" by (simp add: example_scores_def np)
  have g: "num_patches m = 2 * 2" by (simp add: np)
  have h: "shape example_scores = [1, num_patches m] \<and> num_patches m = 2 * 2 \<and> (0::nat) < 2"
    using sh g by simp
  have "\<exists>im. get_patch_importance_map PatchImportanceScorer_forward m example_line_drawing
      = Inr im \<and> shape im = [1, 1, 2, 2] \<and> wf_tensor im \<and>
      view im [int 1, int (num_patches m)] = Inr example_scores"
    by (rule importance_map_roundtrip
        [of PatchImportanceScorer_forward m example_line_drawing example_scores, OF s wf,
          THEN conjunct2, rule_format, of 1 2]) (rule h)
  then obtain im where "get_patch_importance_map PatchImportanceScorer_forward m
      example_line_drawing = Inr im" "shape im = [1, 1, 2, 2]"
    "view im [1, 4] = Inr example_scores"
    using np by auto
  then show ?thesis using m s by auto
qed

section \<open>The selector of the specification\<close>

lemma py_round_le_ceiling: "py_round x \<le> \<lceil>x\<rceil>"
  by (auto simp: py_round_def Let_def ceiling_altdef)

lemma spec_num_selected_bounds:
  assumes "0 < p" "p \<le> 1" "0 < n"
  shows "0 < nat (spec_num_selected n p)" "nat (spec_num_selected n p) \<le> n"
proof -
  have "real n * p \<le> real n" using assms by (simp add: mult_left_le)
  then have "\<lceil>real n * p\<rceil> \<le> \<lceil>real n\<rceil>" by (rule ceiling_mono)
  then have "py_round (real n * p) \<le> int n"
    using py_round_le_ceiling [of "real n * p"] by simp
  then show "nat (spec_num_selected n p) \<le> n"
    using assms(3) by (simp add: spec_num_selected_def)
  show "0 < nat (spec_num_selected n p)" by (simp add: spec_num_selected_def)
qed

lemma length_filter_partition:
  "length (filter P xs) + length (filter (\<lambda>x. \<not> P x) xs) = length xs"
  by (induction xs) simp_all

lemma select_row_props:
  assumes "k \<le> length adjusted"
  shows "length (select_row k threshold adjusted) = k"
    and "sorted_wrt (<) (select_row k threshold adjusted)"
    and "set (select_row k threshold adjusted) \<subseteq> {0..<length adjusted}"
proof -
  define ranking where "ranking = rank_desc adjusted"
  define above where "above = filter (\<lambda>c. threshold < adjusted ! c) ranking"
  define below where "below = filter (\<lambda>c. \<not> threshold < adjusted ! c) ranking"
  define chosen where "chosen = (if k \<le> length above then take k above
                    else above @ take (k - length above) below)"
  have sel: "select_row k threshold adjusted = sort chosen"
    by (simp add: select_row_def Let_def chosen_def above_def below_def ranking_def)
  have len: "length above + length below = length adjusted"
    unfolding above_def below_def ranking_def
    by (simp add: length_filter_partition length_rank_desc)
  have d: "distinct ranking" by (simp add: ranking_def distinct_rank_desc)
  have disj: "set above \<inter> set below = {}" by (auto simp: above_def below_def)
  have "length chosen = k" using assms len by (auto simp: chosen_def)
  then show "length (select_row k threshold adjusted) = k" by (simp add: sel)
  have "distinct chosen"
    using d disj unfolding chosen_def above_def below_def
    by (auto dest: in_set_takeD)
  then show "sorted_wrt (<) (select_row k threshold adjusted)"
    by (simp add: sel strict_sorted_iff)
  have "set chosen \<subseteq> set ranking"
    by (auto simp: chosen_def above_def below_def dest: in_set_takeD)
  then show "set (select_row k threshold adjusted) \<subseteq> {0..<length adjusted}"
    by (simp add: sel ranking_def set_rank_desc)
qed

lemma selector_indices_props:
  assumes "0 < sel_patch_percentage s" "sel_patch_percentage s \<le> 1" "0 < n"
  shows "length (selector_indices adj s n patch_scores line_drawing i)
           = nat (spec_num_selected n (sel_patch_percentage s))"
    and "sorted_wrt (<) (selector_indices adj s n patch_scores line_drawing i)"
    and "set (selector_indices adj s n patch_scores line_drawing i) \<subseteq> {0..<n}"
  using select_row_props [of "nat (spec_num_selected n (sel_patch_percentage s))"
      "map (adj (sel_gaussian_std s) line_drawing i (map (\<lambda>c. entry patch_scores [i, c]) [0..<n]))
         [0..<n]" "sel_threshold s"]
    spec_num_selected_bounds(2) [OF assms]
  by (simp_all add: selector_indices_def Let_def)

lemma example_selector_fields:
  "sel_patch_percentage example_selector = 1 / 2"
  by (simp add: example_selector_def SpatialThresholdSelector_def)

lemma example_spec_k: "nat (spec_num_selected 4 (1 / 2)) = 2"
  by (simp add: spec_num_selected_def py_round_def)

lemma example_zero_selection:
  "selector_indices raw_adjustment example_selector 4 (zeros [1, 4]) example_line_drawing 0
     = [0, 1]"
  by code_simp

lemma example_ranked_selection:
  "selector_indices raw_adjustment example_selector 4 example_ranked_scores example_line_drawing 0
     = [1, 3]"
  by code_simp

lemma example_selector_forward:
  "SpatialThresholdSelector_forward raw_adjustment example_selector example_patches
     example_pos_embed example_ranked_scores example_line_drawing
   = Inr \<lparr>shape = [1, 2, 1], data = [23, 45]\<rparr>"
  by code_simp

text \<open>
  The two tiers together select the first \<open>k\<close> patches of the ranking: the patches above
  the threshold are a prefix of it.
\<close>

lemma sorted_filter_split:
  "sorted (map f xs) \<Longrightarrow>
   filter (\<lambda>x. f x < (t::real)) xs @ filter (\<lambda>x. \<not> f x < t) xs = xs"
proof (induction xs)
  case Nil
  show ?case by simp
next
  case (Cons x xs)
  then have s: "sorted (map f xs)" and le: "\<forall>y\<in>set xs. f x \<le> f y" by simp_all
  show ?case
  proof (cases "f x < t")
    case True
    then show ?thesis using Cons.IH [OF s] by simp
  next
    case False
    then have "\<forall>y\<in>set xs. \<not> f y < t" using le by fastforce
    then have "filter (\<lambda>x. f x < t) xs = []" and "filter (\<lambda>x. \<not> f x < t) xs = xs"
      by (simp_all add: filter_empty_conv filter_id_conv)
    then show ?thesis using False by simp
  qed
qed

lemma select_row_top_k:
  "select_row k threshold adjusted = sort (take k (rank_desc adjusted))"
proof -
  let ?r = "rank_desc adjusted"
  let ?above = "filter (\<lambda>c. threshold < adjusted ! c) ?r"
  let ?below = "filter (\<lambda>c. \<not> threshold < adjusted ! c) ?r"
  have "filter (\<lambda>c. - (adjusted ! c) < - threshold) ?r
        @ filter (\<lambda>c. \<not> - (adjusted ! c) < - threshold) ?r = ?r"
    by (rule sorted_filter_split) (rule sorted_rank_desc)
  then have split: "?above @ ?below = ?r" by simp
  have "(if k \<le> length ?above then take k ?above
         else ?above @ take (k - length ?above) ?below) = take k (?above @ ?below)"
    by simp
  then show ?thesis
    unfolding select_row_def Let_def split by simp
qed

text \<open>
  C1: for every batch of shape (B, N, D) with at least one patch, every score tensor
  (all-zero ones included), every adjustment and every \<open>patch_percentage\<close> in (0, 1],
  the selector returns a result, of shape (B, k, D) with
  \<open>k = max(1, round(N * patch_percentage))\<close>, \<open>1 \<le> k \<le> N\<close>, and for every batch element
  it selects exactly \<open>k\<close> indices.
\<close>

theorem selector_returns_k:
  assumes "shape all_patches = [b, n, d]" and "0 < n"
    and "0 < sel_patch_percentage s" and "sel_patch_percentage s \<le> 1"
  shows "\<exists>out k. SpatialThresholdSelector_forward adj s all_patches pos_embed patch_scores
             line_drawing = Inr out \<and>
           k = nat (spec_num_selected n (sel_patch_percentage s)) \<and> 0 < k \<and> k \<le> n \<and>
           shape out = [b, k, d] \<and> wf_tensor out \<and>
           (\<forall>i. length (selector_indices adj s n patch_scores line_drawing i) = k)"
  using assms spec_num_selected_bounds [OF assms(3,4,2)]
    selector_indices_props(1) [OF assms(3,4,2)]
  by (simp add: SpatialThresholdSelector_forward_def Let_def shape_tabulate wf_tabulate)

text \<open>All scores zero, four patches, one half: two indices, the first two patches.\<close>

theorem selector_returns_k_witness:
  "\<exists>out. SpatialThresholdSelector_forward raw_adjustment example_selector example_patches
       example_pos_embed (zeros [1, 4]) example_line_drawing = Inr out \<and>
     shape out = [1, 2, 1] \<and>
     selector_indices raw_adjustment example_selector 4 (zeros [1, 4]) example_line_drawing 0
       = [0, 1] \<and>
     length (selector_indices raw_adjustment example_selector 4 (zeros [1, 4])
       example_line_drawing 0) = 2"
proof -
  have sh: "shape example_patches = [1, 4, 1]" by (simp add: example_patches_def)
  have n: "(0::nat) < 4" by simp
  have p: "0 < sel_patch_percentage example_selector" "sel_patch_percentage example_selector \<le> 1"
    by (simp_all add: example_selector_fields)
  from selector_returns_k [OF sh n p, of raw_adjustment example_pos_embed "zeros [1, 4]"
      example_line_drawing]
  obtain out k where o: "SpatialThresholdSelector_forward raw_adjustment example_selector
      example_patches example_pos_embed (zeros [1, 4]) example_line_drawing = Inr out"
    and k: "k = nat (spec_num_selected 4 (sel_patch_percentage example_selector))"
    and s: "shape out = [1, k, 1]"
    and l: "\<forall>i. length (selector_indices raw_adjustment example_selector 4 (zeros [1, 4])
      example_line_drawing i) = k"
    by blast
  have "k = 2" using k by (simp add: example_selector_fields example_spec_k)
  then show ?thesis
    using o s l example_zero_selection by simp
qed

text \<open>
  C8: for every batch element the selected indices are strictly increasing, hence
  unique and in original-index order; each is a patch index below \<open>N\<close>, so the
  positional row used, at index + 1, is never row 0 of the CLS token; and entry
  \<open>j\<close> of the output is the embedding of the \<open>j\<close>-th selected patch plus that
  positional row.
\<close>

theorem selector_ascending_with_positions:
  assumes "shape all_patches = [b, n, d]" and "0 < n"
    and "0 < sel_patch_percentage s" and "sel_patch_percentage s \<le> 1"
    and "SpatialThresholdSelector_forward adj s all_patches pos_embed patch_scores line_drawing
           = Inr out"
    and "i < b"
  shows "sorted_wrt (<) (selector_indices adj s n patch_scores line_drawing i) \<and>
         distinct (selector_indices adj s n patch_scores line_drawing i) \<and>
         (\<forall>j<length (selector_indices adj s n patch_scores line_drawing i). \<forall>e<d.
            selector_indices adj s n patch_scores line_drawing i ! j < n \<and>
            0 < selector_indices adj s n patch_scores line_drawing i ! j + 1 \<and>
            entry out [i, j, e] =
              entry all_patches [i, selector_indices adj s n patch_scores line_drawing i ! j, e] +
              entry pos_embed [0, selector_indices adj s n patch_scores line_drawing i ! j + 1, e])"
proof -
  let ?idx = "selector_indices adj s n patch_scores line_drawing i"
  let ?k = "nat (spec_num_selected n (sel_patch_percentage s))"
  note p = selector_indices_props [OF assms(3,4,2), of adj patch_scores line_drawing i]
  have kn: "?k \<le> n" by (rule spec_num_selected_bounds(2) [OF assms(3,4,2)])
  have out: "out = tabulate [b, ?k, d]
                     (\<lambda>ix. case ix of
                        [i, j, e] \<Rightarrow>
                          (let c = selector_indices adj s n patch_scores line_drawing i ! j
                           in entry all_patches [i, c, e] + entry pos_embed [0, c + 1, e])
                      | _ \<Rightarrow> 0)"
    using assms(1,5) kn by (simp add: SpatialThresholdSelector_forward_def Let_def)
  have "entry out [i, j, e] = entry all_patches [i, ?idx ! j, e] + entry pos_embed [0, ?idx ! j + 1, e]"
    and "?idx ! j < n"
    if "j < length ?idx" "e < d" for j e
  proof -
    have "j < ?k" using that(1) p(1) by simp
    then show "entry out [i, j, e] = entry all_patches [i, ?idx ! j, e]
        + entry pos_embed [0, ?idx ! j + 1, e]"
      unfolding out using assms(6) that(2) by (simp add: entry_tabulate Let_def)
    have "?idx ! j \<in> set ?idx" using that(1) by simp
    then show "?idx ! j < n" using p(3) by auto
  qed
  moreover have "distinct ?idx" using p(2) by (simp add: strict_sorted_iff)
  ultimately show ?thesis using p(2) by simp
qed

text \<open>
  Scores 1/4, 1/2, 0, 1: rank order is 3, 1; the output holds patches 1 and 3 in this
  order, 20 + 3 and 40 + 5.
\<close>

theorem selector_ascending_with_positions_witness:
  "SpatialThresholdSelector_forward raw_adjustment example_selector example_patches
     example_pos_embed example_ranked_scores example_line_drawing
     = Inr \<lparr>shape = [1, 2, 1], data = [23, 45]\<rparr> \<and>
   selector_indices raw_adjustment example_selector 4 example_ranked_scores example_line_drawing 0
     = [1, 3] \<and>
   sorted_wrt (<) (selector_indices raw_adjustment example_selector 4 example_ranked_scores
     example_line_drawing 0) \<and>
   entry \<lparr>shape = [1, 2, 1], data = [23, 45 :: real]\<rparr> [0, 0, 0]
     = entry example_patches [0, 1, 0] + entry example_pos_embed [0, 2, 0] \<and>
   entry \<lparr>shape = [1, 2, 1], data = [23, 45 :: real]\<rparr> [0, 1, 0]
     = entry example_patches [0, 3, 0] + entry example_pos_embed [0, 4, 0]"
proof -
  have sh: "shape example_patches = [1, 4, 1]" by (simp add: example_patches_def)
  have n: "(0::nat) < 4" by simp
  have p: "0 < sel_patch_percentage example_selector" "sel_patch_percentage example_selector \<le> 1"
    by (simp_all add: example_selector_fields)
  have i: "(0::nat) < 1" by simp
  note t = selector_ascending_with_positions [OF sh n p example_selector_forward i]
  have a: "sorted_wrt (<) (selector_indices raw_adjustment example_selector 4
      example_ranked_scores example_line_drawing 0)"
    using t by blast
  have b: "\<forall>j<2. \<forall>e<1. entry \<lparr>shape = [1, 2, 1], data = [23, 45 :: real]\<rparr> [0, j, e] =
      entry example_patches [0, [1, 3] ! j, e] + entry example_pos_embed [0, [1, 3] ! j + 1, e]"
    using t by (simp add: example_ranked_selection)
  have "entry \<lparr>shape = [1, 2, 1], data = [23, 45 :: real]\<rparr> [0, 0, 0]
     = entry example_patches [0, 1, 0] + entry example_pos_embed [0, 2, 0]"
    using b [rule_format, of 0 0] by (simp add: numeral_2_eq_2)
  moreover have "entry \<lparr>shape = [1, 2, 1], data = [23, 45 :: real]\<rparr> [0, 1, 0]
     = entry example_patches [0, 3, 0] + entry example_pos_embed [0, 4, 0]"
    using b [rule_format, of 1 0] by simp
  ultimately show ?thesis
    using a example_selector_forward example_ranked_selection by simp
qed

section \<open>Exceptions of the forward pass\<close>


lemma then_do_Inr [simp]: "then_do (Inr x) f = f x" "then_do (Inl e) f = Inl e"
  by (simp_all add: then_do_def)












end
